theory Spec2Isabelle
  imports Complex_Main "HOL-Library.Multiset" "HOL-Library.Product_Lexorder"
begin

section \<open>Configuration constants (app.py, lines 10-13)\<close>

definition MAX_DRUGS :: nat where
  "MAX_DRUGS = 75"

definition TARGET_LIMIT :: nat where
  "TARGET_LIMIT = 3"

definition WORKERS :: nat where
  "WORKERS = 2"

definition CACHE_SIZE :: nat where
  "CACHE_SIZE = 2"

section \<open>Python values\<close>

text \<open>
  A Python float is kept as the number it denotes, with the three special values of
  IEEE 754. Rounding plays no part in the comparisons the program makes, so a finite
  float is a real number here. A \<open>char\<close> of a \<open>string\<close> stands for one code point of a
  Python \<open>str\<close>.
\<close>

datatype pyfloat = NaN | NInf | Fin real | PInf

text \<open>Python's \<open>a <= b\<close> and \<open>a < b\<close> on floats: every comparison with NaN is false.\<close>

fun py_le :: "pyfloat \<Rightarrow> pyfloat \<Rightarrow> bool" where
  "py_le NaN b = False"
| "py_le a NaN = False"
| "py_le NInf b = True"
| "py_le a PInf = True"
| "py_le (Fin a) (Fin b) = (a \<le> b)"
| "py_le (Fin a) NInf = False"
| "py_le PInf b = False"

fun py_lt :: "pyfloat \<Rightarrow> pyfloat \<Rightarrow> bool" where
  "py_lt NaN b = False"
| "py_lt a NaN = False"
| "py_lt PInf b = False"
| "py_lt a NInf = False"
| "py_lt NInf b = True"
| "py_lt (Fin a) (Fin b) = (a < b)"
| "py_lt (Fin a) PInf = True"

text \<open>
  The values found in the dictionaries the remote client returns: \<open>None\<close>, a \<open>str\<close>
  or a number.
\<close>

datatype pyval = PNone | PStr string | PNum pyfloat

type_synonym pydict = "string \<rightharpoonup> pyval"

text \<open>The exceptions the model distinguishes; \<open>RemoteError\<close> is any failure of a remote call.\<close>

datatype exn = KeyError string | TypeError | ValueError | RemoteError string

text \<open>\<open>d[k]\<close> raises KeyError on a missing key; \<open>d.get(k, default)\<close> does not.\<close>

definition getitem :: "pydict \<Rightarrow> string \<Rightarrow> exn + pyval" where
  "getitem d k = (case d k of None \<Rightarrow> Inl (KeyError k) | Some v \<Rightarrow> Inr v)"

definition dict_get :: "pydict \<Rightarrow> string \<Rightarrow> pyval \<Rightarrow> pyval" where
  "dict_get d k dflt = (case d k of None \<Rightarrow> dflt | Some v \<Rightarrow> v)"

text \<open>Truth value of an object in a condition.\<close>

fun truthy :: "pyval \<Rightarrow> bool" where
  "truthy PNone = False"
| "truthy (PStr s) = (s \<noteq> [])"
| "truthy (PNum x) = (x \<noteq> Fin 0)"

text \<open>
  \<open>float(v)\<close>. What \<open>float\<close> makes of a \<open>str\<close> is a parameter \<open>str_float\<close> of the model
  (\<open>None\<close> where it raises ValueError), so every result below holds whatever strings
  the parser accepts.
\<close>

fun py_float :: "(string \<Rightarrow> pyfloat option) \<Rightarrow> pyval \<Rightarrow> exn + pyfloat" where
  "py_float str_float PNone = Inl TypeError"
| "py_float str_float (PStr s) =
     (case str_float s of None \<Rightarrow> Inl ValueError | Some x \<Rightarrow> Inr x)"
| "py_float str_float (PNum x) = Inr x"

text \<open>The placeholder \<open>f"Unknown_{v[:4]}"\<close>: only a \<open>str\<close> can be sliced.\<close>

fun unknown_name :: "pyval \<Rightarrow> exn + pyval" where
  "unknown_name (PStr s) = Inr (PStr (''Unknown_'' @ take 4 s))"
| "unknown_name v = Inl TypeError"

section \<open>The remote data client\<close>

text \<open>
  The four lookups of \<open>new_client\<close>, each of which returns its answer or raises. A
  filter call yields the whole sequence of matches; the program slices it.
\<close>

record remote =
  target_by_synonym :: "string \<Rightarrow> exn + pydict list"
  target_by_pref_name :: "string \<Rightarrow> exn + pydict list"
  mechanism_filter :: "pyval \<Rightarrow> exn + pydict list"
  molecule_get :: "pyval \<Rightarrow> exn + pydict"
  activity_filter :: "pyval \<Rightarrow> pyval \<Rightarrow> exn + pydict list"

section \<open>Drug fetching (app.py, lines 47-88)\<close>

record row =
  Drug :: pyval
  IC50 :: pyfloat
  Phase :: pyval
  Target :: pyval

text \<open>What \<open>st.warning\<close> and \<open>st.error\<close> report from inside \<open>fetch_drugs\<close>.\<close>

datatype notice =
  SkippedDrug "pyval option" exn
| MechanismApiError "pyval option" exn

text \<open>
  Lines 51-53: the mechanism list of the target \<open>tid\<close>, sliced to \<open>MAX_DRUGS*2\<close>
  entries.
\<close>

definition fetch_mechs :: "remote \<Rightarrow> pyval \<Rightarrow> exn + pydict list" where
  "fetch_mechs rc tid =
     (case mechanism_filter rc tid of
        Inl e \<Rightarrow> Inl e
      | Inr ms \<Rightarrow> Inr (take (MAX_DRUGS * 2) ms))"

text \<open>
  Lines 57-79, the body of the loop for one mechanism: \<open>Inl e\<close> when it raises \<open>e\<close>,
  \<open>Inr None\<close> when it appends nothing, \<open>Inr (Some r)\<close> when it appends the row \<open>r\<close>.
  \<open>tid\<close> is \<open>target['target_chembl_id']\<close>, which line 52 has already read.
\<close>

definition process_mech ::
  "(string \<Rightarrow> pyfloat option) \<Rightarrow> remote \<Rightarrow> pydict \<Rightarrow> pyval \<Rightarrow> pyfloat \<Rightarrow> pydict
     \<Rightarrow> exn + row option" where
  "process_mech str_float rc target tid thr mech =
     (case getitem mech ''molecule_chembl_id'' of
        Inl e \<Rightarrow> Inl e
      | Inr mid \<Rightarrow>
     (case molecule_get rc mid of
        Inl e \<Rightarrow> Inl e
      | Inr drug \<Rightarrow>
     (case activity_filter rc mid tid of
        Inl e \<Rightarrow> Inl e
      | Inr acts \<Rightarrow>
     (case take 1 acts of
        [] \<Rightarrow> Inr None
      | a # _ \<Rightarrow>
     (case getitem a ''standard_units'' of
        Inl e \<Rightarrow> Inl e
      | Inr units \<Rightarrow>
          if units \<noteq> PStr ''nM'' then Inr None
          else
     (case getitem a ''standard_value'' of
        Inl e \<Rightarrow> Inl e
      | Inr v \<Rightarrow>
          if \<not> truthy v then Inr None
          else
     (case py_float str_float v of
        Inl e \<Rightarrow> Inl e
      | Inr ic50 \<Rightarrow>
          if \<not> py_le ic50 thr then Inr None
          else
     (case unknown_name mid of
        Inl e \<Rightarrow> Inl e
      | Inr placeholder \<Rightarrow>
          Inr (Some \<lparr>Drug = dict_get drug ''pref_name'' placeholder,
                     IC50 = ic50,
                     Phase = dict_get drug ''max_phase'' (PStr ''Unknown''),
                     Target = dict_get target ''pref_name'' tid\<rparr>)))))))))"

text \<open>
  Lines 55-83, the loop over the selected mechanisms with its two accumulators: the
  list \<open>drugs\<close> and the warnings shown. An exception in one iteration is caught and the
  loop continues.
\<close>

fun mech_loop ::
  "(string \<Rightarrow> pyfloat option) \<Rightarrow> remote \<Rightarrow> pydict \<Rightarrow> pyval \<Rightarrow> pyfloat
     \<Rightarrow> row list \<Rightarrow> notice list \<Rightarrow> pydict list \<Rightarrow> row list \<times> notice list" where
  "mech_loop str_float rc target tid thr drugs shown [] = (drugs, shown)"
| "mech_loop str_float rc target tid thr drugs shown (mech # mechs) =
     (case process_mech str_float rc target tid thr mech of
        Inl e \<Rightarrow>
          mech_loop str_float rc target tid thr drugs
            (shown @ [SkippedDrug (mech ''molecule_chembl_id'') e]) mechs
      | Inr None \<Rightarrow> mech_loop str_float rc target tid thr drugs shown mechs
      | Inr (Some r) \<Rightarrow> mech_loop str_float rc target tid thr (drugs @ [r]) shown mechs)"

text \<open>
  The whole function. The outer handler (lines 85-86) catches what line 52 or the remote
  call raises, reports it for the target, and the empty list is returned.
\<close>

definition fetch_drugs ::
  "(string \<Rightarrow> pyfloat option) \<Rightarrow> remote \<Rightarrow> pydict \<Rightarrow> pyfloat \<Rightarrow> row list \<times> notice list" where
  "fetch_drugs str_float rc target thr =
     (case getitem target ''target_chembl_id'' of
        Inl e \<Rightarrow> ([], [MechanismApiError None e])
      | Inr tid \<Rightarrow>
          (case fetch_mechs rc tid of
             Inl e \<Rightarrow> ([], [MechanismApiError (Some tid) e])
           | Inr mechs \<Rightarrow>
               mech_loop str_float rc target tid thr [] []
                 (take (MAX_DRUGS div TARGET_LIMIT) mechs)))"

text \<open>The row that one iteration of the loop appends, if it appends one.\<close>

definition emitted ::
  "(string \<Rightarrow> pyfloat option) \<Rightarrow> remote \<Rightarrow> pydict \<Rightarrow> pyval \<Rightarrow> pyfloat \<Rightarrow> pydict
     \<Rightarrow> row option" where
  "emitted str_float rc target tid thr mech =
     (case process_mech str_float rc target tid thr mech of
        Inr (Some r) \<Rightarrow> Some r
      | _ \<Rightarrow> None)"

section \<open>Session state (app.py, lines 16-23) and the cache of \<open>get_targets\<close>\<close>

text \<open>
  \<open>st.session_state.results\<close> is a dictionary whose keys \<open>drugs\<close>, \<open>gene\<close>,
  \<open>threshold\<close> and \<open>last_updated\<close> are written by both places that build it; the key
  \<open>api_errors\<close> may be missing, which is \<open>None\<close> here. The data frame is the list of
  its rows.
\<close>

record results_store =
  drugs :: "row list"
  gene :: string
  threshold :: pyfloat
  last_updated :: real
  api_errors :: "int option"

definition initial_results :: results_store where
  "initial_results =
     \<lparr>drugs = [], gene = [], threshold = Fin 0, last_updated = 0, api_errors = Some 0\<rparr>"

text \<open>
  The cache that \<open>lru_cache(maxsize=CACHE_SIZE)\<close> keeps for \<open>get_targets\<close>: the calls
  remembered with their results, the most recently used first.
\<close>

type_synonym targets_cache = "(string \<times> pydict list option) list"

record session =
  results :: results_store
  cache :: targets_cache

section \<open>Target fetching (app.py, lines 26-44)\<close>

definition upper_char :: "char \<Rightarrow> char" where
  "upper_char c =
     (let n = (of_char c :: nat) in if 97 \<le> n \<and> n \<le> 122 then char_of (n - 32) else c)"

definition upper :: "string \<Rightarrow> string" where
  "upper s = map upper_char s"

text \<open>
  Lines 41-44, the handler: \<open>st.session_state.results['api_errors'] += 1\<close> raises
  KeyError itself when the key is missing, and nothing catches that.
\<close>

definition count_api_error :: "results_store \<Rightarrow> exn + (pydict list option \<times> results_store)" where
  "count_api_error rs =
     (case api_errors rs of
        None \<Rightarrow> Inl (KeyError ''api_errors'')
      | Some n \<Rightarrow> Inr (None, rs\<lparr>api_errors := Some (n + 1)\<rparr>))"

text \<open>The body of \<open>get_targets\<close>, run on a cache miss.\<close>

definition get_targets_body ::
  "remote \<Rightarrow> string \<Rightarrow> results_store \<Rightarrow> exn + (pydict list option \<times> results_store)" where
  "get_targets_body rc g rs =
     (case target_by_synonym rc (upper g) of
        Inl e \<Rightarrow> count_api_error rs
      | Inr found \<Rightarrow>
          (let targets = take (TARGET_LIMIT * 2) found in
           if targets \<noteq> [] then Inr (Some targets, rs)
           else
             (case target_by_pref_name rc (upper g) of
                Inl e \<Rightarrow> count_api_error rs
              | Inr found' \<Rightarrow>
                  (let targets' = take (TARGET_LIMIT * 2) found' in
                   Inr (if targets' \<noteq> [] then Some targets' else None, rs)))))"

text \<open>
  Whether that body ends in its handler for the gene: the synonym search raises, or it
  finds nothing and the name search raises.
\<close>

definition resolution_raises :: "remote \<Rightarrow> string \<Rightarrow> bool" where
  "resolution_raises rc g =
     (case target_by_synonym rc (upper g) of
        Inl e \<Rightarrow> True
      | Inr found \<Rightarrow>
          take (TARGET_LIMIT * 2) found = [] \<and>
          (case target_by_pref_name rc (upper g) of Inl e \<Rightarrow> True | Inr found' \<Rightarrow> False))"

text \<open>
  The memoised function: a hit returns the remembered result without running the body
  and makes the entry the most recent one; a miss runs the body and remembers its
  result, dropping the least recently used entry beyond \<open>CACHE_SIZE\<close>. A call that
  raises is not remembered.
\<close>

definition get_targets ::
  "remote \<Rightarrow> string \<Rightarrow> session \<Rightarrow> exn + (pydict list option \<times> session)" where
  "get_targets rc g s =
     (case map_of (cache s) g of
        Some v \<Rightarrow> Inr (v, s\<lparr>cache := (g, v) # filter (\<lambda>kv. fst kv \<noteq> g) (cache s)\<rparr>)
      | None \<Rightarrow>
          (case get_targets_body rc g (results s) of
             Inl e \<Rightarrow> Inl e
           | Inr (v, rs) \<Rightarrow>
               Inr (v, \<lparr>results = rs, cache = take CACHE_SIZE ((g, v) # cache s)\<rparr>)))"

section \<open>The Analyze handler (app.py, lines 103-139)\<close>

text \<open>
  \<open>as_completed\<close> yields every submitted future once, in the order in which the worker
  threads finish. That order is the parameter \<open>order\<close>: the positions of the futures in
  the order of completion, a rearrangement of \<open>0..<n\<close> for \<open>n\<close> futures.
\<close>

definition completion_order :: "nat list \<Rightarrow> nat \<Rightarrow> bool" where
  "completion_order order n = (sort order = [0..<n])"

definition as_completed :: "nat list \<Rightarrow> 'a list \<Rightarrow> 'a list" where
  "as_completed order futures = map (\<lambda>i. futures ! i) order"

text \<open>Lines 119-123: extend the running list, leave the loop once it has \<open>MAX_DRUGS\<close> rows.\<close>

fun merge_loop :: "row list \<Rightarrow> row list list \<Rightarrow> row list" where
  "merge_loop merged [] = merged"
| "merge_loop merged (r # rest) =
     (let merged' = merged @ r in
      if length merged' \<ge> MAX_DRUGS then merged' else merge_loop merged' rest)"

text \<open>
  \<open>sort_values('IC50')\<close>: ascending, NaN last. The rank embeds the floats into a linear
  order; the sort is a stable one here, the library's need not be.
\<close>

fun sort_rank :: "pyfloat \<Rightarrow> nat \<times> real" where
  "sort_rank NInf = (0, 0)"
| "sort_rank (Fin x) = (1, x)"
| "sort_rank PInf = (2, 0)"
| "sort_rank NaN = (3, 0)"

definition sort_values :: "row list \<Rightarrow> row list" where
  "sort_values rows = sort_key (\<lambda>r. sort_rank (IC50 r)) rows"

text \<open>
  How the handler ends: \<open>st.stop()\<close> after finding no targets or no drugs, the store
  replaced, or an exception that nothing catches. Each carries the session as it is then.
\<close>

datatype outcome =
  Uncaught exn session
| NoTargets session
| NoResults session
| Completed session

text \<open>Line 105.\<close>

definition reset_api_errors :: "session \<Rightarrow> session" where
  "reset_api_errors s = s\<lparr>results := (results s)\<lparr>api_errors := Some 0\<rparr>\<rparr>"

text \<open>
  Line 118: one future per target of \<open>targets[:TARGET_LIMIT]\<close>, each standing for the
  list that \<open>fetch_drugs\<close> returns for its target.
\<close>

definition submit_all ::
  "(string \<Rightarrow> pyfloat option) \<Rightarrow> remote \<Rightarrow> pyfloat \<Rightarrow> pydict list \<Rightarrow> row list list" where
  "submit_all str_float rc thr targets =
     map (\<lambda>t. fst (fetch_drugs str_float rc t thr)) (take TARGET_LIMIT targets)"

definition analyze ::
  "(string \<Rightarrow> pyfloat option) \<Rightarrow> remote \<Rightarrow> nat list \<Rightarrow> real \<Rightarrow> string \<Rightarrow> pyfloat \<Rightarrow> session
     \<Rightarrow> outcome" where
  "analyze str_float rc order now g thr s =
     (let s1 = reset_api_errors s in
      case get_targets rc g s1 of
        Inl e \<Rightarrow> Uncaught e s1
      | Inr (None, s2) \<Rightarrow> NoTargets s2
      | Inr (Some targets, s2) \<Rightarrow>
          if targets = [] then NoTargets s2
          else
            (let futures = submit_all str_float rc thr targets;
                 merged = merge_loop [] (as_completed order futures)
             in if merged = [] then NoResults s2
                else Completed
                       (s2\<lparr>results :=
                            \<lparr>drugs = sort_values merged, gene = g, threshold = thr,
                             last_updated = now, api_errors = None\<rparr>\<rparr>)))"

text \<open>
  The targets for which a run started from \<open>s\<close> submits a future; a completion order
  of that run rearranges their positions.
\<close>

definition dispatched :: "remote \<Rightarrow> string \<Rightarrow> session \<Rightarrow> pydict list" where
  "dispatched rc g s =
     (case get_targets rc g (reset_api_errors s) of
        Inr (Some targets, s2) \<Rightarrow> take TARGET_LIMIT targets
      | _ \<Rightarrow> [])"

text \<open>The rows a run produced: those it stored, none when it stopped before.\<close>

fun rows_of :: "outcome \<Rightarrow> row list" where
  "rows_of (Completed s) = drugs (results s)"
| "rows_of other = []"

section \<open>System status and cache management (app.py, lines 173-179)\<close>

text \<open>\<open>results.get('api_errors', 0)\<close>, the count shown.\<close>

definition shown_api_errors :: "session \<Rightarrow> int" where
  "shown_api_errors s = (case api_errors (results s) of None \<Rightarrow> 0 | Some n \<Rightarrow> n)"

definition high_error_rate :: "session \<Rightarrow> bool" where
  "high_error_rate s = (shown_api_errors s > 3)"

text \<open>Lines 178-179, with \<open>now\<close> the value of \<open>time.time()\<close>.\<close>

definition cache_management :: "real \<Rightarrow> session \<Rightarrow> session" where
  "cache_management now s =
     (if last_updated (results s) < now - 300 then s\<lparr>cache := []\<rparr> else s)"

section \<open>A worked example\<close>

text \<open>
  A remote source that knows the gene PTGS2 with two targets and the gene PTGS1 with
  one. The first target has three mechanisms: a named drug at 40 nM, a drug without a
  preferred name at 5 nM and one at 20000 nM. Listing the mechanisms of the second
  target fails.
\<close>

definition demo_str_float :: "string \<Rightarrow> pyfloat option" where
  "demo_str_float s =
     (if s = ''40'' then Some (Fin 40)
      else if s = ''5'' then Some (Fin 5)
      else if s = ''20000'' then Some (Fin 20000)
      else None)"

definition demo_target :: pydict where
  "demo_target =
     [''target_chembl_id'' \<mapsto> PStr ''CHEMBL230'', ''pref_name'' \<mapsto> PStr ''Cyclooxygenase-2'']"

definition other_target :: pydict where
  "other_target = [''target_chembl_id'' \<mapsto> PStr ''CHEMBL221'']"

definition demo_mech :: "string \<Rightarrow> pydict" where
  "demo_mech mid =
     [''molecule_chembl_id'' \<mapsto> PStr mid,
      ''mechanism_of_action'' \<mapsto> PStr ''Cyclooxygenase inhibitor'']"

definition demo_activity :: "string \<Rightarrow> pydict" where
  "demo_activity v = [''standard_value'' \<mapsto> PStr v, ''standard_units'' \<mapsto> PStr ''nM'']"

definition demo_molecule :: "pyval \<Rightarrow> pydict" where
  "demo_molecule mid =
     (if mid = PStr ''CHEMBL118''
      then [''pref_name'' \<mapsto> PStr ''CELECOXIB'', ''max_phase'' \<mapsto> PNum (Fin 4),
            ''molecule_chembl_id'' \<mapsto> mid]
      else [''molecule_chembl_id'' \<mapsto> mid])"

definition demo_remote :: remote where
  "demo_remote =
     \<lparr>target_by_synonym =
        (\<lambda>g. if g = ''PTGS2'' then Inr [demo_target, other_target]
             else if g = ''PTGS1'' then Inr [other_target]
             else Inr []),
      target_by_pref_name = (\<lambda>g. Inr []),
      mechanism_filter =
        (\<lambda>tid. if tid = PStr ''CHEMBL230''
               then Inr [demo_mech ''CHEMBL118'', demo_mech ''CHEMBL1234'', demo_mech ''CHEMBL999'']
               else Inl (RemoteError ''timeout'')),
      molecule_get = (\<lambda>mid. Inr (demo_molecule mid)),
      activity_filter =
        (\<lambda>mid tid. if mid = PStr ''CHEMBL118'' then Inr [demo_activity ''40'']
                   else if mid = PStr ''CHEMBL1234'' then Inr [demo_activity ''5'']
                   else Inr [demo_activity ''20000''])\<rparr>"

text \<open>The same source with sixty mechanisms for every target.\<close>

definition crowded_remote :: remote where
  "crowded_remote =
     demo_remote\<lparr>mechanism_filter := (\<lambda>tid. Inr (replicate 60 (demo_mech ''CHEMBL118'')))\<rparr>"

definition celecoxib_row :: row where
  "celecoxib_row =
     \<lparr>Drug = PStr ''CELECOXIB'', IC50 = Fin 40, Phase = PNum (Fin 4),
      Target = PStr ''Cyclooxygenase-2''\<rparr>"

definition unnamed_row :: row where
  "unnamed_row =
     \<lparr>Drug = PStr ''Unknown_CHEM'', IC50 = Fin 5, Phase = PStr ''Unknown'',
      Target = PStr ''Cyclooxygenase-2''\<rparr>"

definition demo_session :: session where
  "demo_session = \<lparr>results = initial_results, cache = []\<rparr>"

text \<open>The session after analysing PTGS2 at 10000 nM at time 1000.\<close>

definition demo_completed :: session where
  "demo_completed =
     \<lparr>results = \<lparr>drugs = [unnamed_row, celecoxib_row], gene = ''PTGS2'',
                  threshold = Fin 10000, last_updated = 1000, api_errors = None\<rparr>,
      cache = [(''PTGS2'', Some [demo_target, other_target])]\<rparr>"

text \<open>
  The session after a further run at time 2000 from there: on a gene the source does
  not know, and on PTGS1, whose only target yields no rows.
\<close>

definition demo_stopped :: session where
  "demo_stopped =
     \<lparr>results = \<lparr>drugs = [unnamed_row, celecoxib_row], gene = ''PTGS2'',
                  threshold = Fin 10000, last_updated = 1000, api_errors = Some 0\<rparr>,
      cache = [(''NOTAREALGENE'', None), (''PTGS2'', Some [demo_target, other_target])]\<rparr>"

definition demo_stopped_empty :: session where
  "demo_stopped_empty =
     \<lparr>results = \<lparr>drugs = [unnamed_row, celecoxib_row], gene = ''PTGS2'',
                  threshold = Fin 10000, last_updated = 1000, api_errors = Some 0\<rparr>,
      cache = [(''PTGS1'', Some [other_target]), (''PTGS2'', Some [demo_target, other_target])]\<rparr>"

text \<open>
  The same source when it returns every molecule with the requested fields present and
  unset, and when its target search is down.
\<close>

definition null_name_remote :: remote where
  "null_name_remote =
     demo_remote\<lparr>molecule_get :=
       (\<lambda>mid. Inr [''pref_name'' \<mapsto> PNone, ''max_phase'' \<mapsto> PNone,
                    ''molecule_chembl_id'' \<mapsto> mid])\<rparr>"

definition down_remote :: remote where
  "down_remote = demo_remote\<lparr>target_by_synonym := (\<lambda>g. Inl (RemoteError ''timeout''))\<rparr>"

text \<open>The session after a run on TP53 at time 3000 from \<open>demo_stopped\<close>, the search down.\<close>

definition demo_raised :: session where
  "demo_raised =
     \<lparr>results = \<lparr>drugs = [unnamed_row, celecoxib_row], gene = ''PTGS2'',
                  threshold = Fin 10000, last_updated = 1000, api_errors = Some 1\<rparr>,
      cache = [(''TP53'', None), (''NOTAREALGENE'', None)]\<rparr>"

section \<open>Floats and their order\<close>

lemma py_le_trans_lt: "py_le x a \<Longrightarrow> py_lt a b \<Longrightarrow> py_le x b"
  by (cases x; cases a; cases b) auto

lemma py_le_not_NaN: "py_le x t \<Longrightarrow> x \<noteq> NaN"
  by (cases x) auto

lemma py_le_sort_rank: "a \<noteq> NaN \<Longrightarrow> b \<noteq> NaN \<Longrightarrow> py_le a b = (sort_rank a \<le> sort_rank b)"
  by (cases a; cases b) auto

section \<open>One mechanism, one target\<close>

lemma process_mech_le:
  "process_mech sf rc target tid thr mech = Inr (Some r) \<Longrightarrow> py_le (IC50 r) thr"
  by (auto simp: process_mech_def split: sum.splits list.splits if_splits)

lemma process_mech_mono:
  "py_lt t1 t2 \<Longrightarrow> process_mech sf rc target tid t1 mech = Inr (Some r)
    \<Longrightarrow> process_mech sf rc target tid t2 mech = Inr (Some r)"
  by (auto simp: process_mech_def split: sum.splits list.splits if_splits dest: py_le_trans_lt)

lemma mech_loop_rows:
  "fst (mech_loop sf rc target tid thr acc shown mechs) =
     acc @ List.map_filter (emitted sf rc target tid thr) mechs"
  by (induction mechs arbitrary: acc shown)
     (auto simp: emitted_def List.map_filter_simps split: sum.splits option.splits)

lemma length_map_filter_le: "length (List.map_filter f xs) \<le> length xs"
  by (simp add: List.map_filter_def)

lemma set_map_filter: "set (List.map_filter f xs) = {y. \<exists>x\<in>set xs. f x = Some y}"
  by (induction xs) (auto simp: List.map_filter_simps split: option.splits)

section \<open>Merging in completion order\<close>

lemma merge_loop_subset: "set (merge_loop acc rs) \<subseteq> set acc \<union> \<Union> (set ` set rs)"
proof (induction rs arbitrary: acc)
  case Nil
  then show ?case by simp
next
  case (Cons r rs)
  show ?case
  proof (cases "length (acc @ r) \<ge> MAX_DRUGS")
    case True
    then show ?thesis by (auto simp: Let_def)
  next
    case False
    then have "merge_loop acc (r # rs) = merge_loop (acc @ r) rs" by (simp add: Let_def)
    with Cons.IH [of "acc @ r"] show ?thesis by auto
  qed
qed

lemma merge_loop_concat:
  "length acc + sum_list (map length rs) \<le> MAX_DRUGS \<Longrightarrow> merge_loop acc rs = acc @ concat rs"
proof (induction rs arbitrary: acc)
  case Nil
  then show ?case by simp
next
  case (Cons r rs)
  show ?case
  proof (cases "length (acc @ r) \<ge> MAX_DRUGS")
    case True
    define k where "k = sum_list (map length rs)"
    have "length acc + length r + k \<le> MAX_DRUGS" using Cons.prems by (simp add: k_def)
    moreover have "MAX_DRUGS \<le> length acc + length r" using True by simp
    ultimately have "k = 0" by linarith
    then have "\<forall>x\<in>set rs. x = []" by (simp add: k_def)
    then have "concat rs = []" by simp
    with True show ?thesis by (simp add: Let_def)
  next
    case False
    with Cons.prems Cons.IH [of "acc @ r"] show ?thesis by (simp add: Let_def)
  qed
qed

lemma completion_order_mset: "completion_order order n \<Longrightarrow> mset order = mset [0..<n]"
  unfolding completion_order_def by (metis mset_sort)

lemma as_completed_mset:
  assumes "completion_order order (length futures)"
  shows "mset (as_completed order futures) = mset futures"
proof -
  have "mset (as_completed order futures) = image_mset (\<lambda>i. futures ! i) (mset order)"
    by (simp add: as_completed_def)
  also have "\<dots> = image_mset (\<lambda>i. futures ! i) (mset [0..<length futures])"
    using completion_order_mset [OF assms] by simp
  also have "\<dots> = mset (map (\<lambda>i. futures ! i) [0..<length futures])" by simp
  also have "\<dots> = mset futures" by (simp add: map_nth)
  finally show ?thesis .
qed

section \<open>The rows of one target\<close>

lemma fetch_drugs_rows:
  "fst (fetch_drugs sf rc target thr) =
     (case target ''target_chembl_id'' of
        None \<Rightarrow> []
      | Some tid \<Rightarrow>
          (case fetch_mechs rc tid of
             Inl e \<Rightarrow> []
           | Inr mechs \<Rightarrow>
               List.map_filter (emitted sf rc target tid thr)
                 (take (MAX_DRUGS div TARGET_LIMIT) mechs)))"
  by (simp add: fetch_drugs_def getitem_def mech_loop_rows split: option.splits sum.splits)

lemma emitted_le: "emitted sf rc target tid thr mech = Some r \<Longrightarrow> py_le (IC50 r) thr"
  by (auto simp: emitted_def split: sum.splits option.splits dest: process_mech_le)

lemma emitted_mono:
  "py_lt t1 t2 \<Longrightarrow> emitted sf rc target tid t1 mech = Some r
     \<Longrightarrow> emitted sf rc target tid t2 mech = Some r"
  by (auto simp: emitted_def split: sum.splits option.splits dest: process_mech_mono)

lemma fetch_drugs_le: "r \<in> set (fst (fetch_drugs sf rc target thr)) \<Longrightarrow> py_le (IC50 r) thr"
  by (auto simp: fetch_drugs_rows set_map_filter split: option.splits sum.splits dest: emitted_le)

lemma fetch_drugs_length: "length (fst (fetch_drugs sf rc target thr)) \<le> MAX_DRUGS div TARGET_LIMIT"
proof -
  have "length (List.map_filter f (take n ms)) \<le> n" for f :: "pydict \<Rightarrow> row option" and n ms
    using length_map_filter_le [of f "take n ms"] by simp
  then show ?thesis
    by (simp add: fetch_drugs_rows split: option.splits sum.splits)
qed

lemma fetch_drugs_mono:
  "py_lt t1 t2 \<Longrightarrow> set (fst (fetch_drugs sf rc target t1)) \<subseteq> set (fst (fetch_drugs sf rc target t2))"
  by (auto simp: fetch_drugs_rows set_map_filter split: option.splits sum.splits dest: emitted_mono)

section \<open>The futures of a run\<close>

lemma sum_list_length_bound:
  "(\<And>x. x \<in> set xs \<Longrightarrow> length x \<le> k) \<Longrightarrow> sum_list (map length xs) \<le> length xs * k"
  by (induction xs) (auto simp: add_mono)

lemma submit_all_total: "sum_list (map length (submit_all sf rc thr targets)) \<le> MAX_DRUGS"
proof -
  let ?fs = "submit_all sf rc thr targets"
  have "sum_list (map length ?fs) \<le> length ?fs * (MAX_DRUGS div TARGET_LIMIT)"
    by (rule sum_list_length_bound) (auto simp: submit_all_def fetch_drugs_length)
  also have "\<dots> \<le> TARGET_LIMIT * (MAX_DRUGS div TARGET_LIMIT)"
    by (simp add: submit_all_def)
  also have "\<dots> \<le> MAX_DRUGS" by (simp add: MAX_DRUGS_def TARGET_LIMIT_def)
  finally show ?thesis .
qed

lemma merged_concat:
  assumes "completion_order order (length (submit_all sf rc thr targets))"
  shows "merge_loop [] (as_completed order (submit_all sf rc thr targets)) =
           concat (as_completed order (submit_all sf rc thr targets))"
proof -
  let ?fs = "submit_all sf rc thr targets"
  have "mset (map length (as_completed order ?fs)) = mset (map length ?fs)"
    using as_completed_mset [OF assms] by (metis mset_map)
  then have "sum_list (map length (as_completed order ?fs)) = sum_list (map length ?fs)"
    by (metis sum_mset_sum_list)
  with submit_all_total [of sf rc thr targets] show ?thesis
    using merge_loop_concat [of "[]" "as_completed order ?fs"] by simp
qed

lemma merged_set:
  assumes "completion_order order (length (submit_all sf rc thr targets))"
  shows "set (merge_loop [] (as_completed order (submit_all sf rc thr targets))) =
           \<Union> (set ` set (submit_all sf rc thr targets))"
proof -
  have "set (as_completed order (submit_all sf rc thr targets)) = set (submit_all sf rc thr targets)"
    using as_completed_mset [OF assms] by (metis set_mset_mset)
  then show ?thesis by (simp add: merged_concat [OF assms])
qed


lemma length_submit_all: "length (submit_all sf rc thr targets) = length (take TARGET_LIMIT targets)"
  by (simp add: submit_all_def)

section \<open>Completed runs\<close>

text \<open>What a completed run is.\<close>

lemma analyze_Completed:
  assumes "analyze sf rc order now g thr s = Completed s'"
  obtains targets s2 where
    "get_targets rc g (reset_api_errors s) = Inr (Some targets, s2)"
    "targets \<noteq> []"
    "merge_loop [] (as_completed order (submit_all sf rc thr targets)) \<noteq> []"
    "s' = s2\<lparr>results :=
              \<lparr>drugs = sort_values (merge_loop [] (as_completed order (submit_all sf rc thr targets))),
               gene = g, threshold = thr, last_updated = now, api_errors = None\<rparr>\<rparr>"
    "dispatched rc g s = take TARGET_LIMIT targets"
  using assms
  by (auto simp: analyze_def Let_def dispatched_def split: sum.splits option.splits if_splits prod.splits)

lemma set_sort_values: "set (sort_values rows) = set rows"
  by (simp add: sort_values_def)


lemma sorted_sort_values: "sorted (map (\<lambda>r. sort_rank (IC50 r)) (sort_values rows))"
  by (simp add: sort_values_def)

lemma sort_values_idem: "sort_values (sort_values rows) = sort_values rows"
  unfolding sort_values_def by (rule sort_key_id_if_sorted) simp


lemma completed_rows_le:
  assumes "analyze sf rc order now g thr s = Completed s'"
    and "completion_order order (length (dispatched rc g s))"
    and "r \<in> set (drugs (results s'))"
  shows "py_le (IC50 r) thr"
proof -
  from assms(1) obtain targets s2 where
    s': "s' = s2\<lparr>results :=
              \<lparr>drugs = sort_values (merge_loop [] (as_completed order (submit_all sf rc thr targets))),
               gene = g, threshold = thr, last_updated = now, api_errors = None\<rparr>\<rparr>"
    and d: "dispatched rc g s = take TARGET_LIMIT targets"
    by (rule analyze_Completed)
  from assms(2) d have ord: "completion_order order (length (submit_all sf rc thr targets))"
    by (simp add: length_submit_all)
  from assms(3) have "r \<in> \<Union> (set ` set (submit_all sf rc thr targets))"
    by (simp add: s' set_sort_values merged_set [OF ord])
  then show ?thesis by (auto simp: submit_all_def dest: fetch_drugs_le)
qed

lemma completed_threshold:
  "analyze sf rc order now g thr s = Completed s' \<Longrightarrow> threshold (results s') = thr"
  by (erule analyze_Completed) simp

section \<open>The worked example, evaluated\<close>

lemma demo_emit_1:
  "process_mech demo_str_float demo_remote demo_target (PStr ''CHEMBL230'') thr
     (demo_mech ''CHEMBL118'') = (if py_le (Fin 40) thr then Inr (Some celecoxib_row) else Inr None)"
  by (simp add: process_mech_def demo_remote_def demo_mech_def demo_activity_def getitem_def
      demo_str_float_def demo_target_def dict_get_def celecoxib_row_def demo_molecule_def)

lemma demo_emit_2:
  "process_mech demo_str_float demo_remote demo_target (PStr ''CHEMBL230'') thr
     (demo_mech ''CHEMBL1234'') = (if py_le (Fin 5) thr then Inr (Some unnamed_row) else Inr None)"
  by (simp add: process_mech_def demo_remote_def demo_mech_def demo_activity_def getitem_def
      demo_str_float_def demo_target_def dict_get_def unnamed_row_def demo_molecule_def)

lemma demo_emit_3:
  "process_mech demo_str_float demo_remote demo_target (PStr ''CHEMBL230'') thr
     (demo_mech ''CHEMBL999'') =
       (if py_le (Fin 20000) thr
        then Inr (Some \<lparr>Drug = PStr ''Unknown_CHEM'', IC50 = Fin 20000, Phase = PStr ''Unknown'',
                        Target = PStr ''Cyclooxygenase-2''\<rparr>)
        else Inr None)"
  by (simp add: process_mech_def demo_remote_def demo_mech_def demo_activity_def getitem_def
      demo_str_float_def demo_target_def dict_get_def demo_molecule_def)

lemma demo_fetch_mechs:
  "fetch_mechs demo_remote (PStr ''CHEMBL230'') =
     Inr [demo_mech ''CHEMBL118'', demo_mech ''CHEMBL1234'', demo_mech ''CHEMBL999'']"
  by (simp add: fetch_mechs_def demo_remote_def MAX_DRUGS_def)

lemma demo_target_id: "getitem demo_target ''target_chembl_id'' = Inr (PStr ''CHEMBL230'')"
  by (simp add: getitem_def demo_target_def)

lemma demo_fetch_drugs:
  "fetch_drugs demo_str_float demo_remote demo_target (Fin 10000) =
     ([celecoxib_row, unnamed_row], [])"
  by (simp add: fetch_drugs_def demo_fetch_mechs demo_target_id MAX_DRUGS_def TARGET_LIMIT_def
      demo_emit_1 demo_emit_2 demo_emit_3)

lemma demo_fetch_drugs_10:
  "fetch_drugs demo_str_float demo_remote demo_target (Fin 10) = ([unnamed_row], [])"
  by (simp add: fetch_drugs_def demo_fetch_mechs demo_target_id MAX_DRUGS_def TARGET_LIMIT_def
      demo_emit_1 demo_emit_2 demo_emit_3)

lemma other_fetch_drugs:
  "fetch_drugs sf demo_remote other_target thr =
     ([], [MechanismApiError (Some (PStr ''CHEMBL221'')) (RemoteError ''timeout'')])"
  by (simp add: fetch_drugs_def fetch_mechs_def getitem_def other_target_def demo_remote_def)

lemma upper_PTGS2: "upper ''PTGS2'' = ''PTGS2''"
  by (simp add: upper_def upper_char_def)

lemma upper_PTGS1: "upper ''PTGS1'' = ''PTGS1''"
  by (simp add: upper_def upper_char_def)

lemma upper_NOTAREALGENE: "upper ''NOTAREALGENE'' = ''NOTAREALGENE''"
  by (simp add: upper_def upper_char_def)

lemma demo_get_targets:
  "get_targets demo_remote ''PTGS2'' (reset_api_errors demo_session) =
     Inr (Some [demo_target, other_target],
          \<lparr>results = initial_results, cache = [(''PTGS2'', Some [demo_target, other_target])]\<rparr>)"
  by (simp add: get_targets_def get_targets_body_def demo_session_def upper_PTGS2 demo_remote_def
      TARGET_LIMIT_def CACHE_SIZE_def initial_results_def reset_api_errors_def)

lemma demo_dispatched: "dispatched demo_remote ''PTGS2'' demo_session = [demo_target, other_target]"
  by (simp add: dispatched_def demo_get_targets TARGET_LIMIT_def)

lemma demo_order: "completion_order [1, 0] (length (dispatched demo_remote ''PTGS2'' demo_session))"
  by (simp add: demo_dispatched completion_order_def upt_rec)

lemma demo_order_id: "completion_order [0, 1] (length (dispatched demo_remote ''PTGS2'' demo_session))"
  by (simp add: demo_dispatched completion_order_def upt_rec)

lemma demo_sort: "sort_values [celecoxib_row, unnamed_row] = [unnamed_row, celecoxib_row]"
  by (simp add: sort_values_def celecoxib_row_def unnamed_row_def)

lemma demo_run:
  "analyze demo_str_float demo_remote [1, 0] 1000 ''PTGS2'' (Fin 10000) demo_session
     = Completed demo_completed"
  by (simp add: analyze_def demo_get_targets submit_all_def demo_fetch_drugs other_fetch_drugs
      TARGET_LIMIT_def as_completed_def MAX_DRUGS_def demo_sort demo_completed_def)

lemma demo_run_10:
  "analyze demo_str_float demo_remote [0, 1] 900 ''PTGS2'' (Fin 10) demo_session
     = Completed (demo_completed\<lparr>results :=
          \<lparr>drugs = [unnamed_row], gene = ''PTGS2'', threshold = Fin 10, last_updated = 900,
           api_errors = None\<rparr>\<rparr>)"
  by (simp add: analyze_def demo_get_targets submit_all_def demo_fetch_drugs_10 other_fetch_drugs
      TARGET_LIMIT_def as_completed_def MAX_DRUGS_def sort_values_def demo_completed_def)

section \<open>Claims about the rows of a run\<close>

text \<open>
  C1. In every completed run, every row of the stored result has an IC50 no greater than
  the threshold of that run, which is the threshold stored with it: a row is appended
  only when the parsed value is \<open><=\<close> the threshold.
\<close>

theorem rows_within_threshold:
  assumes "analyze sf rc order now g thr s = Completed s'"
    and "completion_order order (length (dispatched rc g s))"
  shows "threshold (results s') = thr \<and>
         (\<forall>r\<in>set (drugs (results s')). py_le (IC50 r) (threshold (results s')))"
  using completed_rows_le [OF assms] completed_threshold [OF assms(1)] by simp

theorem rows_within_threshold_witness:
  "analyze demo_str_float demo_remote [1, 0] 1000 ''PTGS2'' (Fin 10000) demo_session
     = Completed demo_completed \<and>
   completion_order [1, 0] (length (dispatched demo_remote ''PTGS2'' demo_session)) \<and>
   threshold (results demo_completed) = Fin 10000 \<and>
   py_le (IC50 unnamed_row) (Fin 10000) \<and> py_le (IC50 celecoxib_row) (Fin 10000)"
  using rows_within_threshold [OF demo_run demo_order] demo_run demo_order
  by (simp add: demo_completed_def)



text \<open>
  C3. The rows of a completed run are in ascending order of IC50, and sorting them again
  by IC50 changes nothing up to the order of rows with equal IC50: the same rows, with
  the same sequence of IC50 values.
\<close>

theorem rows_sorted_by_ic50:
  assumes "analyze sf rc order now g thr s = Completed s'"
    and "completion_order order (length (dispatched rc g s))"
  shows "sorted_wrt (\<lambda>a b. py_le (IC50 a) (IC50 b)) (drugs (results s')) \<and>
         map IC50 (sort_values (drugs (results s'))) = map IC50 (drugs (results s')) \<and>
         mset (sort_values (drugs (results s'))) = mset (drugs (results s'))"
proof -
  from assms(1) obtain targets s2 where
    s': "s' = s2\<lparr>results :=
              \<lparr>drugs = sort_values (merge_loop [] (as_completed order (submit_all sf rc thr targets))),
               gene = g, threshold = thr, last_updated = now, api_errors = None\<rparr>\<rparr>"
    by (rule analyze_Completed)
  define rows where "rows = drugs (results s')"
  have rows: "rows = sort_values (merge_loop [] (as_completed order (submit_all sf rc thr targets)))"
    by (simp add: rows_def s')
  have no_nan: "IC50 r \<noteq> NaN" if "r \<in> set rows" for r
    using completed_rows_le [OF assms] that py_le_not_NaN unfolding rows_def by blast
  have "sorted (map (\<lambda>r. sort_rank (IC50 r)) rows)"
    unfolding rows by (rule sorted_sort_values)
  then have "sorted_wrt (\<lambda>a b. sort_rank (IC50 a) \<le> sort_rank (IC50 b)) rows"
    by (simp add: sorted_map)
  then have "sorted_wrt (\<lambda>a b. py_le (IC50 a) (IC50 b)) rows"
    by (rule sorted_wrt_mono_rel [rotated]) (simp add: py_le_sort_rank no_nan)
  moreover have "sort_values rows = rows"
    unfolding rows by (rule sort_values_idem)
  ultimately show ?thesis unfolding rows_def by simp
qed

theorem rows_sorted_by_ic50_witness:
  "analyze demo_str_float demo_remote [1, 0] 1000 ''PTGS2'' (Fin 10000) demo_session
     = Completed demo_completed \<and>
   completion_order [1, 0] (length (dispatched demo_remote ''PTGS2'' demo_session)) \<and>
   sorted_wrt (\<lambda>a b. py_le (IC50 a) (IC50 b)) [unnamed_row, celecoxib_row]"
  using rows_sorted_by_ic50 [OF demo_run demo_order] demo_run demo_order
  by (simp add: demo_completed_def)

text \<open>
  C4. Two runs from the same session on the same gene, with the same remote responses
  and thresholds \<open>T1 < T2\<close>: every row produced for \<open>T1\<close> is produced for \<open>T2\<close>, in
  whatever order the futures of either run complete.
\<close>

theorem threshold_monotone:
  assumes "py_lt t1 t2"
    and "completion_order o1 (length (dispatched rc g s))"
    and "completion_order o2 (length (dispatched rc g s))"
  shows "set (rows_of (analyze sf rc o1 now1 g t1 s)) \<subseteq> set (rows_of (analyze sf rc o2 now2 g t2 s))"
proof (cases "analyze sf rc o1 now1 g t1 s")
  case (Completed s1)
  then obtain targets s2 where
    gt: "get_targets rc g (reset_api_errors s) = Inr (Some targets, s2)"
    and ne: "targets \<noteq> []"
    and m1: "merge_loop [] (as_completed o1 (submit_all sf rc t1 targets)) \<noteq> []"
    and s1: "s1 = s2\<lparr>results :=
              \<lparr>drugs = sort_values (merge_loop [] (as_completed o1 (submit_all sf rc t1 targets))),
               gene = g, threshold = t1, last_updated = now1, api_errors = None\<rparr>\<rparr>"
    and d: "dispatched rc g s = take TARGET_LIMIT targets"
    by (rule analyze_Completed)
  let ?m1 = "merge_loop [] (as_completed o1 (submit_all sf rc t1 targets))"
  let ?m2 = "merge_loop [] (as_completed o2 (submit_all sf rc t2 targets))"
  from assms(2) d have ord1: "completion_order o1 (length (submit_all sf rc t1 targets))"
    by (simp add: length_submit_all)
  from assms(3) d have ord2: "completion_order o2 (length (submit_all sf rc t2 targets))"
    by (simp add: length_submit_all)
  have sub: "set ?m1 \<subseteq> set ?m2"
    unfolding merged_set [OF ord1] merged_set [OF ord2]
    using fetch_drugs_mono [OF assms(1)] by (fastforce simp: submit_all_def)
  with m1 have m2: "?m2 \<noteq> []" by auto
  have "analyze sf rc o2 now2 g t2 s =
          Completed (s2\<lparr>results := \<lparr>drugs = sort_values ?m2, gene = g, threshold = t2,
                                    last_updated = now2, api_errors = None\<rparr>\<rparr>)"
    using gt ne m2 by (simp add: analyze_def Let_def)
  with Completed sub show ?thesis by (simp add: s1 set_sort_values)
qed simp_all

theorem threshold_monotone_witness:
  "py_lt (Fin 10) (Fin 10000) \<and>
   completion_order [0, 1] (length (dispatched demo_remote ''PTGS2'' demo_session)) \<and>
   completion_order [1, 0] (length (dispatched demo_remote ''PTGS2'' demo_session)) \<and>
   rows_of (analyze demo_str_float demo_remote [0, 1] 900 ''PTGS2'' (Fin 10) demo_session)
     = [unnamed_row] \<and>
   rows_of (analyze demo_str_float demo_remote [1, 0] 1000 ''PTGS2'' (Fin 10000) demo_session)
     = [unnamed_row, celecoxib_row] \<and>
   set [unnamed_row] \<subseteq> set [unnamed_row, celecoxib_row]"
proof -
  have lt: "py_lt (Fin 10) (Fin 10000)" by simp
  have r1: "rows_of (analyze demo_str_float demo_remote [0, 1] 900 ''PTGS2'' (Fin 10) demo_session)
              = [unnamed_row]"
    unfolding demo_run_10 by simp
  have r2: "rows_of (analyze demo_str_float demo_remote [1, 0] 1000 ''PTGS2'' (Fin 10000) demo_session)
              = [unnamed_row, celecoxib_row]"
    unfolding demo_run by (simp add: demo_completed_def)
  have "set (rows_of (analyze demo_str_float demo_remote [0, 1] 900 ''PTGS2'' (Fin 10) demo_session))
          \<subseteq> set (rows_of (analyze demo_str_float demo_remote [1, 0] 1000 ''PTGS2'' (Fin 10000)
                   demo_session))"
    by (rule threshold_monotone [OF lt demo_order_id demo_order])
  then have "set [unnamed_row] \<subseteq> set [unnamed_row, celecoxib_row]"
    unfolding r1 r2 .
  with lt demo_order_id demo_order r1 r2 show ?thesis by blast
qed


section \<open>Claims about one target\<close>

lemma map_filter_replicate:
  "f x = Some y \<Longrightarrow> List.map_filter f (replicate n x) = replicate n y"
  by (induction n) (simp_all add: List.map_filter_simps)

lemma crowded_fetch_mechs:
  "fetch_mechs crowded_remote tid = Inr (replicate 60 (demo_mech ''CHEMBL118''))"
  by (simp add: fetch_mechs_def crowded_remote_def MAX_DRUGS_def)

lemma crowded_emit:
  "emitted demo_str_float crowded_remote demo_target (PStr ''CHEMBL230'') (Fin 10000)
     (demo_mech ''CHEMBL118'') = Some celecoxib_row"
  by (simp add: emitted_def process_mech_def crowded_remote_def demo_remote_def demo_mech_def
      demo_activity_def getitem_def demo_str_float_def demo_target_def dict_get_def
      celecoxib_row_def demo_molecule_def)

text \<open>
  C5, as stated: the mechanism list fetched for a target has at most twice the budget
  \<open>MAX_DRUGS // TARGET_LIMIT\<close> of entries, fifty. It fails: line 53 slices at
  \<open>MAX_DRUGS*2\<close>, and of sixty mechanisms all sixty are fetched.
\<close>

theorem mechanism_request_bound_counterexample:
  "fetch_mechs crowded_remote (PStr ''CHEMBL230'') = Inr (replicate 60 (demo_mech ''CHEMBL118'')) \<and>
   \<not> length (replicate 60 (demo_mech ''CHEMBL118'')) \<le> 2 * (MAX_DRUGS div TARGET_LIMIT)"
  by (simp add: crowded_fetch_mechs MAX_DRUGS_def TARGET_LIMIT_def)

text \<open>
  C5, amended: the mechanism list fetched for a target has at most \<open>2 * MAX_DRUGS\<close>
  (150) entries, and \<open>fetch_drugs\<close> processes only the first
  \<open>MAX_DRUGS // TARGET_LIMIT\<close> (25) of them, in the order returned, each giving at most
  one row.
\<close>

theorem mechanism_request_bound:
  assumes "target ''target_chembl_id'' = Some tid"
    and "fetch_mechs rc tid = Inr mechs"
  shows "length mechs \<le> 2 * MAX_DRUGS \<and> 2 * MAX_DRUGS = 150 \<and>
         MAX_DRUGS div TARGET_LIMIT = 25 \<and>
         fst (fetch_drugs sf rc target thr) =
           List.map_filter (emitted sf rc target tid thr) (take (MAX_DRUGS div TARGET_LIMIT) mechs)"
proof -
  from assms(2) have "length mechs \<le> 2 * MAX_DRUGS"
    by (auto simp: fetch_mechs_def split: sum.splits)
  moreover have "fst (fetch_drugs sf rc target thr) =
           List.map_filter (emitted sf rc target tid thr) (take (MAX_DRUGS div TARGET_LIMIT) mechs)"
    using assms by (simp add: fetch_drugs_rows)
  ultimately show ?thesis by (simp add: MAX_DRUGS_def TARGET_LIMIT_def)
qed

theorem mechanism_request_bound_witness:
  "demo_target ''target_chembl_id'' = Some (PStr ''CHEMBL230'') \<and>
   fetch_mechs crowded_remote (PStr ''CHEMBL230'') = Inr (replicate 60 (demo_mech ''CHEMBL118'')) \<and>
   length (replicate 60 (demo_mech ''CHEMBL118'')) \<le> 2 * MAX_DRUGS \<and>
   fst (fetch_drugs demo_str_float crowded_remote demo_target (Fin 10000)) =
     replicate 25 celecoxib_row"
proof -
  have t: "demo_target ''target_chembl_id'' = Some (PStr ''CHEMBL230'')"
    by (simp add: demo_target_def)
  have "take (MAX_DRUGS div TARGET_LIMIT) (replicate 60 (demo_mech ''CHEMBL118'')) =
          replicate 25 (demo_mech ''CHEMBL118'')"
    by (simp add: MAX_DRUGS_def TARGET_LIMIT_def)
  with mechanism_request_bound [where target = demo_target and sf = demo_str_float
      and thr = "Fin 10000", OF t crowded_fetch_mechs [of "PStr ''CHEMBL230''"]]
  show ?thesis
    using t crowded_fetch_mechs
    by (simp add: map_filter_replicate
          [where f = "emitted demo_str_float crowded_remote demo_target (PStr ''CHEMBL230'') (Fin 10000)",
           OF crowded_emit])
qed

text \<open>
  What \<open>fetch_drugs\<close> does when listing the mechanisms of a target fails: no rows, and
  one report naming the target. It has no access to the session, so no counter moves.
\<close>

lemma fetch_drugs_mechanism_failure:
  assumes "target ''target_chembl_id'' = Some tid"
    and "mechanism_filter rc tid = Inl e"
  shows "fetch_drugs sf rc target thr = ([], [MechanismApiError (Some tid) e])"
  using assms by (simp add: fetch_drugs_def fetch_mechs_def getitem_def)

text \<open>
  C6 says that a failure of the mechanism list of a target aborts that target only, is
  reported for the target, and increments the error counter of the session. The code at
  the failing input: PTGS1 has one target, whose mechanism list fails. The failure is
  reported and the run ends without results, with the counter at 0 as line 105 set it.
\<close>

theorem mechanism_failure_not_counted:
  "fetch_drugs demo_str_float demo_remote other_target (Fin 10000) =
     ([], [MechanismApiError (Some (PStr ''CHEMBL221'')) (RemoteError ''timeout'')]) \<and>
   analyze demo_str_float demo_remote [0] 1000 ''PTGS1'' (Fin 10000) demo_session =
     NoResults \<lparr>results = initial_results, cache = [(''PTGS1'', Some [other_target])]\<rparr> \<and>
   shown_api_errors \<lparr>results = initial_results, cache = [(''PTGS1'', Some [other_target])]\<rparr> = 0"
proof -
  have "get_targets demo_remote ''PTGS1'' (reset_api_errors demo_session) =
     Inr (Some [other_target],
          \<lparr>results = initial_results, cache = [(''PTGS1'', Some [other_target])]\<rparr>)"
    by (simp add: get_targets_def get_targets_body_def demo_session_def upper_PTGS1 demo_remote_def
        TARGET_LIMIT_def CACHE_SIZE_def initial_results_def reset_api_errors_def)
  then show ?thesis
    by (simp add: analyze_def submit_all_def other_fetch_drugs TARGET_LIMIT_def as_completed_def
        MAX_DRUGS_def initial_results_def shown_api_errors_def)
qed

text \<open>
  The two cases of line 75. \<open>dict.get\<close> falls back on a missing key only: with no key
  \<open>pref_name\<close> in the molecule record the row gets the placeholder, with the key
  present and \<open>None\<close> the row is named \<open>None\<close>.
\<close>

lemma absent_name_placeholder:
  assumes "process_mech sf rc target tid thr mech = Inr (Some r)"
    and "mech ''molecule_chembl_id'' = Some mid"
    and "molecule_get rc mid = Inr drug"
    and "drug ''pref_name'' = None"
  shows "(\<exists>s. mid = PStr s \<and> Drug r = PStr (''Unknown_'' @ take 4 s)) \<and>
         unknown_name (PStr ''CHEMBL1234'') = Inr (PStr ''Unknown_CHEM'')"
proof -
  from assms obtain p where p: "unknown_name mid = Inr p" and d: "Drug r = p"
    by (auto simp: process_mech_def getitem_def dict_get_def
        split: sum.splits list.splits if_splits option.splits)
  from p obtain s where "mid = PStr s" "p = PStr (''Unknown_'' @ take 4 s)"
    by (cases mid) auto
  with d show ?thesis by simp
qed

lemma explicit_none_name_kept:
  assumes "process_mech sf rc target tid thr mech = Inr (Some r)"
    and "mech ''molecule_chembl_id'' = Some mid"
    and "molecule_get rc mid = Inr drug"
    and "drug ''pref_name'' = Some PNone"
  shows "Drug r = PNone"
  using assms
  by (auto simp: process_mech_def getitem_def dict_get_def
      split: sum.splits list.splits if_splits option.splits)

text \<open>
  C8 says that for a molecule without a preferred name the row is named \<open>Unknown_\<close>
  followed by the first four characters of the molecule id, \<open>Unknown_CHEM\<close> for the id
  CHEMBL1234. The code at the failing input: the molecule CHEMBL1234 comes back with the
  requested field \<open>pref_name\<close> present and \<open>None\<close>, and the row emitted for it is
  named \<open>None\<close>, not by the placeholder that line 75 has built.
\<close>

theorem none_name_not_replaced:
  "molecule_get null_name_remote (PStr ''CHEMBL1234'') =
     Inr [''pref_name'' \<mapsto> PNone, ''max_phase'' \<mapsto> PNone,
          ''molecule_chembl_id'' \<mapsto> PStr ''CHEMBL1234''] \<and>
   process_mech demo_str_float null_name_remote demo_target (PStr ''CHEMBL230'') (Fin 10000)
     (demo_mech ''CHEMBL1234'') =
     Inr (Some \<lparr>Drug = PNone, IC50 = Fin 5, Phase = PNone,
                 Target = PStr ''Cyclooxygenase-2''\<rparr>) \<and>
   unknown_name (PStr ''CHEMBL1234'') = Inr (PStr ''Unknown_CHEM'')"
  by (simp add: process_mech_def null_name_remote_def demo_remote_def demo_mech_def
      demo_activity_def getitem_def demo_str_float_def demo_target_def dict_get_def)

section \<open>Claims about the store and the cache\<close>

text \<open>
  C7 says that the store written by a completed run holds the error count of the run
  beside rows, gene, threshold and timestamp. The code at a completed run: the
  dictionary of lines 134-139 has no key \<open>api_errors\<close>.
\<close>

theorem completed_store_lacks_error_count:
  "analyze demo_str_float demo_remote [1, 0] 1000 ''PTGS2'' (Fin 10000) demo_session
     = Completed demo_completed \<and>
   api_errors (results demo_completed) = None"
  using demo_run by (simp add: demo_completed_def)

text \<open>
  C9. At the cache management step, when the stored timestamp is more than 300 time
  units before now, the cache of \<open>get_targets\<close> is cleared and the stored result is
  left as it is.
\<close>

theorem stale_cache_cleared:
  assumes "last_updated (results s) < now - 300"
  shows "cache (cache_management now s) = [] \<and> results (cache_management now s) = results s"
  using assms by (simp add: cache_management_def)

theorem stale_cache_cleared_witness:
  "last_updated (results demo_completed) < 1301 - 300 \<and>
   cache demo_completed \<noteq> [] \<and>
   cache (cache_management 1301 demo_completed) = [] \<and>
   results (cache_management 1301 demo_completed) = results demo_completed"
proof -
  have h: "last_updated (results demo_completed) < 1301 - 300"
    by (simp add: demo_completed_def)
  from stale_cache_cleared [OF h] h show ?thesis by (simp add: demo_completed_def)
qed

text \<open>How a run that stops early leaves the store: it has only run \<open>get_targets\<close>.\<close>

lemma get_targets_body_counts:
  assumes "get_targets_body rc g rs = Inr (v, rs')"
    and "api_errors rs = Some n"
  shows "rs' = rs\<lparr>api_errors := Some (if resolution_raises rc g then n + 1 else n)\<rparr>"
  using assms
  by (auto simp: get_targets_body_def count_api_error_def resolution_raises_def Let_def
      split: sum.splits option.splits if_splits)

lemma get_targets_counts:
  assumes "get_targets rc g s = Inr (v, s')"
    and "api_errors (results s) = Some n"
  shows "results s' =
           (results s)\<lparr>api_errors :=
              Some (if map_of (cache s) g = None \<and> resolution_raises rc g then n + 1 else n)\<rparr>"
proof (cases "map_of (cache s) g")
  case None
  with assms(1) obtain rs where b: "get_targets_body rc g (results s) = Inr (v, rs)"
    and s': "results s' = rs"
    by (auto simp: get_targets_def split: sum.splits prod.splits)
  from get_targets_body_counts [OF b assms(2)] s' None show ?thesis by simp
next
  case (Some w)
  with assms show ?thesis by (auto simp: get_targets_def)
qed

lemma analyze_never_uncaught: "analyze sf rc order now g thr s \<noteq> Uncaught e s'"
proof -
  have "get_targets rc g (reset_api_errors s) \<noteq> Inl e'" for e'
    by (auto simp: get_targets_def get_targets_body_def count_api_error_def reset_api_errors_def
        Let_def split: sum.splits option.splits)
  then show ?thesis
    by (auto simp: analyze_def Let_def split: sum.splits option.splits prod.splits)
qed

lemma analyze_stopped:
  assumes "analyze sf rc order now g thr s = NoTargets s' \<or>
           analyze sf rc order now g thr s = NoResults s'"
  obtains v where "get_targets rc g (reset_api_errors s) = Inr (v, s')"
  using assms
  by (auto simp: analyze_def Let_def split: sum.splits option.splits prod.splits if_splits)

lemma demo_no_targets:
  "analyze demo_str_float demo_remote [] 2000 ''NOTAREALGENE'' (Fin 10000) demo_completed =
     NoTargets demo_stopped"
proof -
  have "get_targets demo_remote ''NOTAREALGENE'' (reset_api_errors demo_completed) =
          Inr (None, demo_stopped)"
    by (simp add: get_targets_def get_targets_body_def demo_completed_def upper_NOTAREALGENE
        demo_remote_def TARGET_LIMIT_def CACHE_SIZE_def reset_api_errors_def demo_stopped_def)
  then show ?thesis by (simp add: analyze_def)
qed

lemma demo_no_results:
  "analyze demo_str_float demo_remote [0] 2000 ''PTGS1'' (Fin 10000) demo_completed =
     NoResults demo_stopped_empty"
proof -
  have "get_targets demo_remote ''PTGS1'' (reset_api_errors demo_completed) =
          Inr (Some [other_target], demo_stopped_empty)"
    by (simp add: get_targets_def get_targets_body_def demo_completed_def upper_PTGS1
        demo_remote_def TARGET_LIMIT_def CACHE_SIZE_def reset_api_errors_def demo_stopped_empty_def)
  then show ?thesis
    by (simp add: analyze_def submit_all_def other_fetch_drugs TARGET_LIMIT_def as_completed_def
        MAX_DRUGS_def)
qed

lemma upper_TP53: "upper ''TP53'' = ''TP53''"
  by (simp add: upper_def upper_char_def)

lemma demo_search_down:
  "analyze demo_str_float down_remote [] 3000 ''TP53'' (Fin 10000) demo_stopped =
     NoTargets demo_raised"
proof -
  have "get_targets down_remote ''TP53'' (reset_api_errors demo_stopped) = Inr (None, demo_raised)"
    by (simp add: get_targets_def get_targets_body_def count_api_error_def demo_stopped_def
        upper_TP53 down_remote_def demo_remote_def TARGET_LIMIT_def CACHE_SIZE_def
        reset_api_errors_def demo_raised_def)
  then show ?thesis by (simp add: analyze_def)
qed

lemma down_remote_raises: "resolution_raises down_remote ''TP53''"
  by (simp add: resolution_raises_def down_remote_def)

text \<open>
  C10, as stated: a run that ends with no targets or no results leaves the stored
  result entirely unchanged. It fails: the run writes the error counter of the store.
  Here the store holds the counter at 0, the target search raises, and the run leaves
  the counter at 1.
\<close>

theorem failed_run_changes_store_counterexample:
  "analyze demo_str_float down_remote [] 3000 ''TP53'' (Fin 10000) demo_stopped =
     NoTargets demo_raised \<and>
   api_errors (results demo_stopped) = Some 0 \<and>
   api_errors (results demo_raised) = Some 1 \<and>
   results demo_raised \<noteq> results demo_stopped"
  using demo_search_down by (simp add: demo_stopped_def demo_raised_def)

text \<open>
  C10, amended: a run that ends with no targets or no results leaves the rows, the
  gene, the threshold and the timestamp of the store unchanged. It writes the error
  counter: line 105 resets it to 0, and the handler of \<open>get_targets\<close> increments it,
  to 1, when target resolution raises; a remembered result runs no search and leaves
  it at 0.
\<close>

theorem failed_run_keeps_data:
  assumes "analyze sf rc order now g thr s = NoTargets s' \<or>
           analyze sf rc order now g thr s = NoResults s'"
  shows "drugs (results s') = drugs (results s) \<and>
         gene (results s') = gene (results s) \<and>
         threshold (results s') = threshold (results s) \<and>
         last_updated (results s') = last_updated (results s) \<and>
         api_errors (results s') =
           Some (if map_of (cache s) g = None \<and> resolution_raises rc g then 1 else 0)"
proof -
  from assms obtain v where gt: "get_targets rc g (reset_api_errors s) = Inr (v, s')"
    by (rule analyze_stopped)
  have "api_errors (results (reset_api_errors s)) = Some 0"
    by (simp add: reset_api_errors_def)
  from get_targets_counts [OF gt this] show ?thesis
    by (simp add: reset_api_errors_def)
qed

theorem failed_run_keeps_data_witness:
  "analyze demo_str_float demo_remote [0] 2000 ''PTGS1'' (Fin 10000) demo_completed =
     NoResults demo_stopped_empty \<and>
   drugs (results demo_stopped_empty) = drugs (results demo_completed) \<and>
   gene (results demo_stopped_empty) = gene (results demo_completed) \<and>
   threshold (results demo_stopped_empty) = threshold (results demo_completed) \<and>
   last_updated (results demo_stopped_empty) = last_updated (results demo_completed) \<and>
   api_errors (results demo_stopped_empty) = Some 0 \<and>
   analyze demo_str_float down_remote [] 3000 ''TP53'' (Fin 10000) demo_completed =
     NoTargets (demo_raised\<lparr>cache := [(''TP53'', None), (''PTGS2'', Some [demo_target, other_target])]\<rparr>) \<and>
   resolution_raises down_remote ''TP53'' \<and>
   api_errors (results (demo_raised\<lparr>cache := [(''TP53'', None), (''PTGS2'', Some [demo_target, other_target])]\<rparr>)) = Some 1"
proof -
  have quiet: "\<not> resolution_raises demo_remote ''PTGS1''"
    by (simp add: resolution_raises_def demo_remote_def upper_PTGS1 TARGET_LIMIT_def)
  have run2: "analyze demo_str_float down_remote [] 3000 ''TP53'' (Fin 10000) demo_completed =
     NoTargets (demo_raised\<lparr>cache := [(''TP53'', None), (''PTGS2'', Some [demo_target, other_target])]\<rparr>)"
  proof -
    have "get_targets down_remote ''TP53'' (reset_api_errors demo_completed) =
            Inr (None, demo_raised\<lparr>cache := [(''TP53'', None), (''PTGS2'', Some [demo_target, other_target])]\<rparr>)"
      by (simp add: get_targets_def get_targets_body_def count_api_error_def demo_completed_def
          upper_TP53 down_remote_def demo_remote_def TARGET_LIMIT_def CACHE_SIZE_def
          reset_api_errors_def demo_raised_def)
    then show ?thesis by (simp add: analyze_def)
  qed
  from failed_run_keeps_data [OF disjI2 [OF demo_no_results]]
       failed_run_keeps_data [OF disjI1 [OF run2]]
       demo_no_results run2 down_remote_raises quiet
  show ?thesis by (simp add: demo_completed_def)
qed


end
